theory Spec2Isabelle
  imports Main
begin

section \<open>Data model\<close>

text \<open>
  JavaScript distinguishes \<open>undefined\<close>, \<open>null\<close> and an object. The validator's result
  depends on the difference (optional chaining yields \<open>undefined\<close>), so the three are kept
  apart. An object is always truthy; \<open>undefined\<close> and \<open>null\<close> are falsy.
\<close>

datatype 'a nullable = Undefined | Null | Defined 'a

text \<open>
  Errors as values: \<open>TypeError\<close> is what reading a property of \<open>undefined\<close> throws;
  \<open>StoreError\<close> is whatever the record store's call throws or rejects with.
\<close>

datatype error = TypeError | StoreError string

text \<open>A tag is an entry of the \<open>tags\<close> array of a user: \<open>{ key, value }\<close>.\<close>

record tag =
  tag_key :: string
  tag_value :: string

text \<open>
  The user entity. The source reads \<open>_id\<close> and filters on \<open>tags.key\<close> and
  \<open>tags.value\<close>; \<open>other\<close> stands for the remaining fields of the entity, which the
  source never touches.
\<close>

record user =
  u_id :: string
  tags :: "tag list"
  other :: string

type_synonym user_document = user

text \<open>\<open>toJSON\<close> turns a document into the plain object with the same fields.\<close>

definition toJSON :: "user_document \<Rightarrow> user" where
  "toJSON userDocument = userDocument"

text \<open>
  The filter object literal of \<open>validateApiKey\<close>:
  \<open>{ _id: ..., 'tags.key': ..., 'tags.value': ... }\<close>, three conditions side by side.
\<close>

record user_filter =
  f_id :: string
  f_tags_key :: string
  f_tags_value :: string

section \<open>The record store\<close>

text \<open>
  \<open>UserModelService\<close> is injected into the service. It is modelled as the dependency it
  is: \<open>findOne_impl\<close> is how the store answers a filter (a document, \<open>null\<close> or
  \<open>undefined\<close>, or an error), and \<open>queries\<close> records the lookups issued so far, so
  that the number of round trips is observable.
\<close>

record user_model_service =
  findOne_impl :: "user_filter \<Rightarrow> error + user_document nullable"
  queries :: "user_filter list"

definition findOne ::
  "user_filter \<Rightarrow> user_model_service \<Rightarrow> (error + user_document nullable) \<times> user_model_service"
where
  "findOne query svc = (findOne_impl svc query, svc\<lparr>queries := queries svc @ [query]\<rparr>)"

text \<open>
  A store backed by a collection of documents, answering as the document database behind
  \<open>UserDocument\<close> does. The filter names \<open>tags.key\<close> and \<open>tags.value\<close> by dot
  notation, as two separate conditions on the \<open>tags\<close> array: in the query language of
  MongoDB the first holds when some element of the array has that key, the second when
  some element of the array has that value, and nothing ties the two to the same element
  (that would take an element-match condition, which the filter does not use). The
  lookup returns the first matching document in collection order, \<open>null\<close> when none
  matches.
\<close>

definition matches :: "user_filter \<Rightarrow> user_document \<Rightarrow> bool" where
  "matches query d \<longleftrightarrow>
     u_id d = f_id query \<and>
     list_ex (\<lambda>t. tag_key t = f_tags_key query) (tags d) \<and>
     list_ex (\<lambda>t. tag_value t = f_tags_value query) (tags d)"

definition collection_findOne :: "user_document list \<Rightarrow> user_filter \<Rightarrow> error + user_document nullable" where
  "collection_findOne docs query =
     (case find (matches query) docs of
        None \<Rightarrow> Inr Null
      | Some d \<Rightarrow> Inr (Defined d))"

definition collection :: "user_document list \<Rightarrow> user_model_service" where
  "collection docs = \<lparr>findOne_impl = collection_findOne docs, queries = []\<rparr>"

text \<open>A store whose every call fails with the given error (connection lost, timeout).\<close>

definition unreachable :: "error \<Rightarrow> user_model_service" where
  "unreachable e = \<lparr>findOne_impl = (\<lambda>_. Inl e), queries = []\<rparr>"

text \<open>
  What the claims call a matching tag: one single tag of the document whose name is
  \<open>api-key\<close> and whose value is the credential.
\<close>

definition has_api_key :: "string \<Rightarrow> user_document \<Rightarrow> bool" where
  "has_api_key apiKey d \<longleftrightarrow>
     list_ex (\<lambda>t. tag_key t = ''api-key'' \<and> tag_value t = apiKey) (tags d)"

section \<open>ApiKeyService.validateApiKey\<close>

text \<open>
  \<open>userDocument?.toJSON()\<close>: \<open>undefined\<close> when the document is \<open>null\<close> or
  \<open>undefined\<close>, the plain object otherwise.
\<close>

definition optional_toJSON :: "user_document nullable \<Rightarrow> user nullable" where
  "optional_toJSON userDocument =
     (case userDocument of
        Undefined \<Rightarrow> Undefined
      | Null \<Rightarrow> Undefined
      | Defined d \<Rightarrow> Defined (toJSON d))"

text \<open>
  The promise settles exactly once: \<open>Inr\<close> is \<open>resolve\<close>, \<open>Inl\<close> is \<open>reject\<close>.
  The claimed user is \<open>request.user\<close> as the strategy passes it, which may be missing:
  then building the filter reads \<open>_id\<close> of \<open>undefined\<close>, which throws inside the
  \<open>try\<close> before \<open>findOne\<close> is called, and the \<open>catch\<close> rejects.
\<close>

definition validateApiKey ::
  "string \<Rightarrow> user_document option \<Rightarrow> user_model_service \<Rightarrow>
     (error + user nullable) \<times> user_model_service"
where
  "validateApiKey apiKey claimed svc =
     (case claimed of
        None \<Rightarrow> (Inl TypeError, svc)
      | Some u \<Rightarrow>
          (case findOne \<lparr>f_id = u_id u, f_tags_key = ''api-key'', f_tags_value = apiKey\<rparr> svc of
             (Inl e, svc') \<Rightarrow> (Inl e, svc')
           | (Inr userDocument, svc') \<Rightarrow> (Inr (optional_toJSON userDocument), svc')))"

section \<open>ApiKeyStrategy\<close>

text \<open>The options the strategy's constructor passes to its base class.\<close>

definition header :: string where
  "header = ''Authorization''"

definition prefix :: string where
  "prefix = ''Bearer ''"

text \<open>
  The request as far as the strategy sees it: the host's header lookup, the identity
  claimed by an earlier stage (\<open>request.user\<close>, possibly missing), and \<open>body\<close> for the
  rest of the request.
\<close>

record request =
  get_header :: "string \<Rightarrow> string option"
  user :: "user option"
  body :: string

text \<open>
  The three ways the verify callback calls \<open>done\<close>:
  \<open>done(error)\<close>, \<open>done(null, false)\<close> and \<open>done(null, user)\<close>.
\<close>

datatype done_call = DoneError error | DoneFalse | DoneUser user

text \<open>\<open>!user\<close> on the validator's result.\<close>

definition falsy :: "'a nullable \<Rightarrow> bool" where
  "falsy v = (case v of Undefined \<Rightarrow> True | Null \<Rightarrow> True | Defined _ \<Rightarrow> False)"

text \<open>
  The verify callback passed to the base class. It awaits the validator; a rejection is
  caught and passed to \<open>done\<close>; a falsy result (\<open>undefined\<close> or \<open>null\<close>) gives
  \<open>done(null, false)\<close>; a user gives \<open>done(null, user)\<close>.
\<close>

definition verify :: "string \<Rightarrow> request \<Rightarrow> user_model_service \<Rightarrow> done_call \<times> user_model_service" where
  "verify apiKey req svc =
     (case validateApiKey apiKey (user req) svc of
        (Inl e, svc') \<Rightarrow> (DoneError e, svc')
      | (Inr r, svc') \<Rightarrow>
          (case r of
             Undefined \<Rightarrow> (DoneFalse, svc')
           | Null \<Rightarrow> (DoneFalse, svc')
           | Defined u \<Rightarrow> (DoneUser u, svc')))"

section \<open>The gate around the strategy\<close>

datatype reason = missing_credential | identity_not_found | credential_mismatch | upstream_error

datatype outcome = Allowed user | Denied reason

text \<open>
  Modelled from the spec: the credential extractor, which the repository inherits from
  the header-API-key base class of its strategy and which is not part of the sources.
  An absent header is absence; a header that does not start with the prefix is absence;
  otherwise the remainder after the prefix is the credential, unmodified.
\<close>

definition extractCredential :: "string option \<Rightarrow> string option" where
  "extractCredential headerValue =
     (case headerValue of
        None \<Rightarrow> None
      | Some v \<Rightarrow>
          if take (length prefix) v = prefix then Some (drop (length prefix) v) else None)"

text \<open>
  What one run of the gate leaves behind: the outcome, the request context afterwards,
  the error reported to the host (if any), and the store with its query log.
\<close>

record gate_result =
  outcome :: outcome
  ctx :: request
  reported :: "error option"
  service :: user_model_service

text \<open>
  Modelled from the spec: the dispatch of the base class and the guard, which are not
  part of the sources. Absence of a credential denies with \<open>missing-credential\<close>
  without calling the verify callback; \<open>done(null, user)\<close> allows and attaches the user
  to the request; \<open>done(null, false)\<close> denies with \<open>credential-mismatch\<close>;
  \<open>done(error)\<close> denies with \<open>upstream-error\<close> and reports the error.
\<close>

definition authenticate :: "request \<Rightarrow> user_model_service \<Rightarrow> gate_result" where
  "authenticate req svc =
     (case extractCredential (get_header req header) of
        None \<Rightarrow>
          \<lparr>outcome = Denied missing_credential, ctx = req, reported = None, service = svc\<rparr>
      | Some apiKey \<Rightarrow>
          (case verify apiKey req svc of
             (DoneError e, svc') \<Rightarrow>
               \<lparr>outcome = Denied upstream_error, ctx = req, reported = Some e, service = svc'\<rparr>
           | (DoneFalse, svc') \<Rightarrow>
               \<lparr>outcome = Denied credential_mismatch, ctx = req, reported = None, service = svc'\<rparr>
           | (DoneUser u, svc') \<Rightarrow>
               \<lparr>outcome = Allowed u, ctx = req\<lparr>user := Some u\<rparr>, reported = None, service = svc'\<rparr>))"

section \<open>Example data\<close>

text \<open>
  \<open>alice\<close> holds the key \<open>abc123\<close> and a second tag; \<open>alice_session\<close> is another
  document with the same \<open>_id\<close> and nothing else in common; \<open>bob\<close>'s key tag has an
  empty value; \<open>carol\<close> holds the key \<open>k-123\<close> and a second tag.
\<close>

definition alice :: user where
  "alice =
     \<lparr>u_id = ''U1'',
      tags = [\<lparr>tag_key = ''api-key'', tag_value = ''abc123''\<rparr>,
              \<lparr>tag_key = ''role'', tag_value = ''admin''\<rparr>],
      other = ''alice''\<rparr>"

definition alice_session :: user where
  "alice_session = \<lparr>u_id = ''U1'', tags = [], other = ''session copy''\<rparr>"

definition bob :: user where
  "bob = \<lparr>u_id = ''U2'', tags = [\<lparr>tag_key = ''api-key'', tag_value = ''''\<rparr>], other = ''bob''\<rparr>"

definition carol :: user where
  "carol =
     \<lparr>u_id = ''U3'',
      tags = [\<lparr>tag_key = ''api-key'', tag_value = ''k-123''\<rparr>,
              \<lparr>tag_key = ''plan'', tag_value = ''gold''\<rparr>],
      other = ''carol''\<rparr>"

text \<open>A request with the given \<open>Authorization\<close> header value and claimed identity.\<close>

definition request_with :: "string option \<Rightarrow> user option \<Rightarrow> request" where
  "request_with h u =
     \<lparr>get_header = (\<lambda>n. if n = ''Authorization'' then h else None), user = u, body = ''{}''\<rparr>"

section \<open>Basic facts\<close>

lemmas eval_defs =
  authenticate_def verify_def validateApiKey_def findOne_def collection_def
  collection_findOne_def matches_def extractCredential_def prefix_def header_def
  request_with_def alice_def alice_session_def bob_def carol_def optional_toJSON_def
  toJSON_def unreachable_def has_api_key_def falsy_def

lemma validateApiKey_present:
  "validateApiKey apiKey (Some c) svc =
     (case findOne_impl svc \<lparr>f_id = u_id c, f_tags_key = ''api-key'', f_tags_value = apiKey\<rparr> of
        Inl e \<Rightarrow> Inl e
      | Inr d \<Rightarrow> Inr (optional_toJSON d),
      svc\<lparr>queries := queries svc @
        [\<lparr>f_id = u_id c, f_tags_key = ''api-key'', f_tags_value = apiKey\<rparr>]\<rparr>)"
  by (simp add: validateApiKey_def findOne_def split: sum.split)

lemma validateApiKey_absent: "validateApiKey apiKey None svc = (Inl TypeError, svc)"
  by (simp add: validateApiKey_def)

lemma validateApiKey_impl:
  "findOne_impl (snd (validateApiKey apiKey claimed svc)) = findOne_impl svc"
  by (cases claimed) (simp_all add: validateApiKey_present validateApiKey_absent)

lemma validateApiKey_cong:
  "findOne_impl svc' = findOne_impl svc \<Longrightarrow>
     fst (validateApiKey apiKey claimed svc') = fst (validateApiKey apiKey claimed svc)"
  by (cases claimed) (simp_all add: validateApiKey_present validateApiKey_absent)

lemma verify_fst:
  "fst (verify apiKey req svc) =
     (case fst (validateApiKey apiKey (user req) svc) of
        Inl e \<Rightarrow> DoneError e
      | Inr r \<Rightarrow> (case r of Defined u \<Rightarrow> DoneUser u | _ \<Rightarrow> DoneFalse))"
  by (simp add: verify_def split: prod.split sum.split nullable.split)

lemma verify_snd: "snd (verify apiKey req svc) = snd (validateApiKey apiKey (user req) svc)"
  by (simp add: verify_def split: prod.split sum.split nullable.split)

lemma authenticate_outcome:
  "outcome (authenticate req svc) =
     (case extractCredential (get_header req header) of
        None \<Rightarrow> Denied missing_credential
      | Some apiKey \<Rightarrow>
          (case fst (verify apiKey req svc) of
             DoneError e \<Rightarrow> Denied upstream_error
           | DoneFalse \<Rightarrow> Denied credential_mismatch
           | DoneUser u \<Rightarrow> Allowed u))"
  by (simp add: authenticate_def split: option.split prod.split done_call.split)

lemma authenticate_reported:
  "reported (authenticate req svc) =
     (case extractCredential (get_header req header) of
        None \<Rightarrow> None
      | Some apiKey \<Rightarrow>
          (case fst (verify apiKey req svc) of
             DoneError e \<Rightarrow> Some e
           | _ \<Rightarrow> None))"
  by (simp add: authenticate_def split: option.split prod.split done_call.split)

lemma authenticate_service:
  "service (authenticate req svc) =
     (case extractCredential (get_header req header) of
        None \<Rightarrow> svc
      | Some apiKey \<Rightarrow> snd (verify apiKey req svc))"
  by (simp add: authenticate_def split: option.split prod.split done_call.split)

lemma authenticate_ctx:
  "ctx (authenticate req svc) =
     (case outcome (authenticate req svc) of
        Allowed u \<Rightarrow> req\<lparr>user := Some u\<rparr>
      | Denied _ \<Rightarrow> req)"
  by (simp add: authenticate_def split: option.split prod.split done_call.split)

text \<open>A run of the gate adds to the query log and leaves the store's answers as they were.\<close>

lemma authenticate_impl: "findOne_impl (service (authenticate req svc)) = findOne_impl svc"
  by (simp add: authenticate_service verify_snd validateApiKey_impl split: option.split)

lemma authenticate_cong:
  "findOne_impl svc' = findOne_impl svc \<Longrightarrow>
     outcome (authenticate req svc') = outcome (authenticate req svc) \<and>
     reported (authenticate req svc') = reported (authenticate req svc)"
  by (simp add: authenticate_outcome authenticate_reported verify_fst
      validateApiKey_cong [of svc' svc] split: option.split)

section \<open>Idempotence\<close>

text \<open>
  Claim C7. Running \<open>authenticate\<close> a second time on the same request state, against the
  store as the first run left it (the same answers, one more entry in its query log at
  most), yields the same outcome as the first run: the same allowed identity or the same
  denial reason, and the same reported error.
\<close>

theorem authenticate_twice:
  "outcome (authenticate req (service (authenticate req svc))) = outcome (authenticate req svc) \<and>
   reported (authenticate req (service (authenticate req svc))) = reported (authenticate req svc)"
  by (rule authenticate_cong) (rule authenticate_impl)

section \<open>The lookup of validateApiKey\<close>

text \<open>With a claimed identity, the validator issues exactly one lookup, with this filter.\<close>

lemma validateApiKey_one_lookup:
  "queries (snd (validateApiKey apiKey (Some c) svc)) =
     queries svc @ [\<lparr>f_id = u_id c, f_tags_key = ''api-key'', f_tags_value = apiKey\<rparr>]"
  by (simp add: validateApiKey_present)

text \<open>A single tag with the name and the value satisfies both conditions of the filter.\<close>

lemma has_api_key_matches:
  "has_api_key apiKey d \<Longrightarrow>
     matches \<lparr>f_id = u_id d, f_tags_key = ''api-key'', f_tags_value = apiKey\<rparr> d"
  by (auto simp add: has_api_key_def matches_def list_ex_iff)

lemma find_matches_unique:
  "d \<in> set docs \<Longrightarrow> distinct (map u_id docs) \<Longrightarrow> matches query d \<Longrightarrow>
     find (matches query) docs = Some d"
proof (induction docs)
  case Nil
  then show ?case by simp
next
  case (Cons x docs)
  show ?case
  proof (cases "x = d")
    case True
    with Cons.prems show ?thesis by simp
  next
    case False
    with Cons.prems have "d \<in> set docs" by simp
    then have "u_id d \<in> u_id ` set docs" by simp
    with Cons.prems have "u_id x \<noteq> u_id d" by auto
    with Cons.prems have "\<not> matches query x" by (auto simp add: matches_def)
    with Cons \<open>d \<in> set docs\<close> show ?thesis by simp
  qed
qed

text \<open>
  When the collection (with unique identifiers) holds a document for the claimed identity
  with a matching tag, the gate allows that identity.
\<close>

lemma matching_tag_allowed:
  assumes "d \<in> set docs" and "distinct (map u_id docs)" and "has_api_key apiKey d"
    and "user req = Some c" and "u_id c = u_id d"
    and "extractCredential (get_header req header) = Some apiKey"
  shows "outcome (authenticate req (collection docs)) = Allowed d"
proof -
  have "find (matches \<lparr>f_id = u_id d, f_tags_key = ''api-key'', f_tags_value = apiKey\<rparr>) docs
          = Some d"
    using assms by (simp add: find_matches_unique has_api_key_matches)
  with assms show ?thesis
    by (simp add: authenticate_outcome verify_fst validateApiKey_present collection_def
        collection_findOne_def optional_toJSON_def toJSON_def)
qed

text \<open>When no document satisfies the filter, the gate denies with \<open>credential-mismatch\<close>.\<close>

lemma no_match_denied:
  assumes "find (matches \<lparr>f_id = u_id c, f_tags_key = ''api-key'', f_tags_value = apiKey\<rparr>) docs
             = None"
    and "user req = Some c"
    and "extractCredential (get_header req header) = Some apiKey"
  shows "outcome (authenticate req (collection docs)) = Denied credential_mismatch"
  using assms
  by (simp add: authenticate_outcome verify_fst validateApiKey_present collection_def
      collection_findOne_def optional_toJSON_def)

text \<open>
  Claim C1. The claim reads the filter as requiring one single tag named \<open>api-key\<close> whose
  value is the credential. The filter of the source does not require that: its two tag
  conditions are satisfied by different tags. \<open>alice\<close> has the key \<open>abc123\<close> and a tag
  \<open>(role, admin)\<close>; no tag of hers is \<open>(api-key, admin)\<close>. Presenting \<open>admin\<close> as the
  credential, the validator issues its one lookup and the gate allows \<open>alice\<close>.
\<close>

theorem key_matched_across_tags:
  "\<not> has_api_key ''admin'' alice \<and>
   outcome (authenticate (request_with (Some ''Bearer admin'') (Some alice)) (collection [alice]))
     = Allowed alice \<and>
   queries (service
       (authenticate (request_with (Some ''Bearer admin'') (Some alice)) (collection [alice])))
     = [\<lparr>f_id = ''U1'', f_tags_key = ''api-key'', f_tags_value = ''admin''\<rparr>]"
  by (simp add: eval_defs)

text \<open>
  Claim C8. The same defect lets a caller tell an existing identity from an unknown one.
  \<open>carol\<close> has the key \<open>k-123\<close> and a tag \<open>(plan, gold)\<close>; the credential \<open>gold\<close>
  matches no \<open>api-key\<close> tag of hers. With \<open>carol\<close> in the store the gate allows her; with
  the store empty the same request is denied with \<open>credential-mismatch\<close>.
\<close>

theorem wrong_key_distinguishable:
  "\<not> has_api_key ''gold'' carol \<and>
   outcome (authenticate (request_with (Some ''Bearer gold'') (Some carol)) (collection [carol]))
     = Allowed carol \<and>
   outcome (authenticate (request_with (Some ''Bearer gold'') (Some carol)) (collection []))
     = Denied credential_mismatch"
  by (simp add: eval_defs)

section \<open>The empty credential\<close>

text \<open>
  Claim C2, as amended. With a claimed identity, \<open>validateApiKey\<close> treats the empty
  credential like any other: it issues exactly one lookup, whose filter carries the empty
  string as the tag value, and it settles as the store answers (rejecting on an error,
  resolving with the document converted or with \<open>undefined\<close>).
\<close>

theorem validateApiKey_empty_credential:
  "queries (snd (validateApiKey '''' (Some c) svc))
     = queries svc @ [\<lparr>f_id = u_id c, f_tags_key = ''api-key'', f_tags_value = ''''\<rparr>] \<and>
   fst (validateApiKey '''' (Some c) svc)
     = (case findOne_impl svc \<lparr>f_id = u_id c, f_tags_key = ''api-key'', f_tags_value = ''''\<rparr> of
          Inl e \<Rightarrow> Inl e
        | Inr d \<Rightarrow> Inr (optional_toJSON d))"
  by (simp add: validateApiKey_present)

text \<open>
  The claim as stated fails: \<open>bob\<close>'s key tag has an empty value, and validating the empty
  credential for him queries the store once and resolves with \<open>bob\<close>.
\<close>

theorem empty_credential_queried_and_accepted:
  "fst (validateApiKey '''' (Some bob) (collection [bob])) = Inr (Defined bob) \<and>
   queries (snd (validateApiKey '''' (Some bob) (collection [bob])))
     = [\<lparr>f_id = ''U2'', f_tags_key = ''api-key'', f_tags_value = ''''\<rparr>]"
  by (simp add: eval_defs)

section \<open>A request without a claimed identity\<close>

text \<open>
  Claim C3, as amended. For a request with a well-formed credential header and no claimed
  identity, the validator rejects with the \<open>TypeError\<close> before any lookup is issued, the
  verify callback calls \<open>done(error)\<close>, and the gate ends on its error path: denial with
  \<open>upstream-error\<close>, the \<open>TypeError\<close> reported, request and store untouched.
\<close>

theorem no_claimed_identity_is_error:
  assumes "extractCredential (get_header req header) = Some apiKey" and "user req = None"
  shows "verify apiKey req svc = (DoneError TypeError, svc) \<and>
         authenticate req svc =
           \<lparr>outcome = Denied upstream_error, ctx = req, reported = Some TypeError, service = svc\<rparr>"
  using assms by (simp add: authenticate_def verify_def validateApiKey_absent)

theorem no_claimed_identity_is_error_witness:
  "extractCredential (get_header (request_with (Some ''Bearer abc123'') None) header)
     = Some ''abc123'' \<and>
   user (request_with (Some ''Bearer abc123'') None) = None \<and>
   authenticate (request_with (Some ''Bearer abc123'') None) (collection [alice]) =
     \<lparr>outcome = Denied upstream_error, ctx = request_with (Some ''Bearer abc123'') None,
      reported = Some TypeError, service = collection [alice]\<rparr>"
proof -
  have h: "extractCredential (get_header (request_with (Some ''Bearer abc123'') None) header)
             = Some ''abc123''"
    by (simp add: extractCredential_def request_with_def header_def prefix_def)
  have u: "user (request_with (Some ''Bearer abc123'') None) = None"
    by (simp add: request_with_def)
  from no_claimed_identity_is_error [OF h u, of "collection [alice]"] h u
  show ?thesis by simp
qed

text \<open>
  The claim as stated fails: on such a request the callback signals an error, and the
  outcome is not a denial with \<open>identity-not-found\<close>.
\<close>

theorem no_claimed_identity_not_reported_as_such:
  "fst (verify ''abc123'' (request_with (Some ''Bearer abc123'') None) (collection [alice]))
     = DoneError TypeError \<and>
   outcome (authenticate (request_with (Some ''Bearer abc123'') None) (collection [alice]))
     \<noteq> Denied identity_not_found"
  by (simp add: eval_defs)

section \<open>Failures end in a denial\<close>

text \<open>
  Claim C4. When the validator resolves to absence, the verify callback calls
  \<open>done(null, false)\<close> and the gate denies with \<open>credential-mismatch\<close>, reporting
  nothing. When the store call of the validator errors, the callback calls \<open>done(error)\<close>
  with that error and the gate denies with \<open>upstream-error\<close> and reports the error. The
  gate allows an identity only when a credential was extracted and the validator resolved
  to that identity, so no failure of any kind ends in an allow.
\<close>

theorem failures_deny:
  "(extractCredential (get_header req header) = Some apiKey \<and>
      fst (validateApiKey apiKey (user req) svc) = Inr r \<and> falsy r \<longrightarrow>
        fst (verify apiKey req svc) = DoneFalse \<and>
        outcome (authenticate req svc) = Denied credential_mismatch \<and>
        reported (authenticate req svc) = None) \<and>
   (extractCredential (get_header req header) = Some apiKey \<and> user req = Some c \<and>
      findOne_impl svc \<lparr>f_id = u_id c, f_tags_key = ''api-key'', f_tags_value = apiKey\<rparr> = Inl e \<longrightarrow>
        fst (verify apiKey req svc) = DoneError e \<and>
        outcome (authenticate req svc) = Denied upstream_error \<and>
        reported (authenticate req svc) = Some e) \<and>
   (outcome (authenticate req svc) = Allowed u \<longrightarrow>
      (\<exists>k. extractCredential (get_header req header) = Some k \<and>
           fst (validateApiKey k (user req) svc) = Inr (Defined u)))"
proof (intro conjI impI)
  assume a: "extractCredential (get_header req header) = Some apiKey \<and>
    fst (validateApiKey apiKey (user req) svc) = Inr r \<and> falsy r"
  then have v: "fst (verify apiKey req svc) = DoneFalse"
    by (cases r) (simp_all add: verify_fst falsy_def)
  from a v show "fst (verify apiKey req svc) = DoneFalse"
    and "outcome (authenticate req svc) = Denied credential_mismatch"
    and "reported (authenticate req svc) = None"
    by (simp_all add: authenticate_outcome authenticate_reported)
next
  assume a: "extractCredential (get_header req header) = Some apiKey \<and> user req = Some c \<and>
    findOne_impl svc \<lparr>f_id = u_id c, f_tags_key = ''api-key'', f_tags_value = apiKey\<rparr> = Inl e"
  then have v: "fst (verify apiKey req svc) = DoneError e"
    by (simp add: verify_fst validateApiKey_present)
  from a v show "fst (verify apiKey req svc) = DoneError e"
    and "outcome (authenticate req svc) = Denied upstream_error"
    and "reported (authenticate req svc) = Some e"
    by (simp_all add: authenticate_outcome authenticate_reported)
next
  assume "outcome (authenticate req svc) = Allowed u"
  then show "\<exists>k. extractCredential (get_header req header) = Some k \<and>
           fst (validateApiKey k (user req) svc) = Inr (Defined u)"
    by (auto simp add: authenticate_outcome verify_fst
        split: option.splits sum.splits nullable.splits)
qed

theorem failures_deny_witness:
  "outcome (authenticate (request_with (Some ''Bearer wrong'') (Some alice)) (collection [alice]))
     = Denied credential_mismatch \<and>
   outcome (authenticate (request_with (Some ''Bearer abc123'') (Some alice))
       (unreachable (StoreError ''timeout'')))
     = Denied upstream_error \<and>
   reported (authenticate (request_with (Some ''Bearer abc123'') (Some alice))
       (unreachable (StoreError ''timeout'')))
     = Some (StoreError ''timeout'') \<and>
   (\<exists>k. extractCredential (get_header (request_with (Some ''Bearer abc123'') (Some alice)) header)
          = Some k \<and>
        fst (validateApiKey k (user (request_with (Some ''Bearer abc123'') (Some alice)))
          (collection [alice])) = Inr (Defined alice))"
proof -
  have a: "extractCredential (get_header (request_with (Some ''Bearer wrong'') (Some alice)) header)
             = Some ''wrong'' \<and>
           fst (validateApiKey ''wrong'' (user (request_with (Some ''Bearer wrong'') (Some alice)))
             (collection [alice])) = Inr Undefined \<and>
           falsy (Undefined :: user nullable)"
    by (simp add: eval_defs)
  have b: "extractCredential (get_header (request_with (Some ''Bearer abc123'') (Some alice)) header)
             = Some ''abc123'' \<and>
           user (request_with (Some ''Bearer abc123'') (Some alice)) = Some alice \<and>
           findOne_impl (unreachable (StoreError ''timeout''))
             \<lparr>f_id = u_id alice, f_tags_key = ''api-key'', f_tags_value = ''abc123''\<rparr>
             = Inl (StoreError ''timeout'')"
    by (simp add: eval_defs)
  have c: "outcome (authenticate (request_with (Some ''Bearer abc123'') (Some alice))
             (collection [alice])) = Allowed alice"
    by (simp add: eval_defs)
  from a failures_deny [where req = "request_with (Some ''Bearer wrong'') (Some alice)"
      and apiKey = "''wrong''" and svc = "collection [alice]" and r = Undefined]
  have 1: "outcome (authenticate (request_with (Some ''Bearer wrong'') (Some alice))
             (collection [alice])) = Denied credential_mismatch"
    by blast
  from b failures_deny [where req = "request_with (Some ''Bearer abc123'') (Some alice)"
      and apiKey = "''abc123''" and svc = "unreachable (StoreError ''timeout'')"
      and c = alice and e = "StoreError ''timeout''"]
  have 2: "outcome (authenticate (request_with (Some ''Bearer abc123'') (Some alice))
             (unreachable (StoreError ''timeout''))) = Denied upstream_error \<and>
           reported (authenticate (request_with (Some ''Bearer abc123'') (Some alice))
             (unreachable (StoreError ''timeout''))) = Some (StoreError ''timeout'')"
    by blast
  from c failures_deny [where req = "request_with (Some ''Bearer abc123'') (Some alice)"
      and svc = "collection [alice]" and u = alice]
  have 3: "\<exists>k. extractCredential
               (get_header (request_with (Some ''Bearer abc123'') (Some alice)) header) = Some k \<and>
             fst (validateApiKey k (user (request_with (Some ''Bearer abc123'') (Some alice)))
               (collection [alice])) = Inr (Defined alice)"
    by blast
  from 1 2 3 show ?thesis by blast
qed

section \<open>The request context\<close>

text \<open>
  Claim C5. Whenever the gate denies, whatever the reason, the request context afterwards
  is the request as it came in. Whenever it allows, the context is the request with the
  resolved identity attached as its user and every other field as it was.
\<close>

theorem denied_leaves_context:
  "(\<forall>rsn. outcome (authenticate req svc) = Denied rsn \<longrightarrow> ctx (authenticate req svc) = req) \<and>
   (\<forall>u. outcome (authenticate req svc) = Allowed u \<longrightarrow>
        ctx (authenticate req svc) = req\<lparr>user := Some u\<rparr>)"
  by (simp add: authenticate_ctx)

theorem denied_leaves_context_witness:
  "outcome (authenticate (request_with (Some ''Bearer wrong'') (Some alice_session))
       (collection [alice])) = Denied credential_mismatch \<and>
   ctx (authenticate (request_with (Some ''Bearer wrong'') (Some alice_session))
       (collection [alice])) = request_with (Some ''Bearer wrong'') (Some alice_session) \<and>
   outcome (authenticate (request_with (Some ''Bearer abc123'') (Some alice_session))
       (collection [alice])) = Allowed alice \<and>
   ctx (authenticate (request_with (Some ''Bearer abc123'') (Some alice_session))
       (collection [alice])) =
     (request_with (Some ''Bearer abc123'') (Some alice_session))\<lparr>user := Some alice\<rparr>"
proof -
  have d: "outcome (authenticate (request_with (Some ''Bearer wrong'') (Some alice_session))
             (collection [alice])) = Denied credential_mismatch"
    by (simp add: eval_defs)
  have a: "outcome (authenticate (request_with (Some ''Bearer abc123'') (Some alice_session))
             (collection [alice])) = Allowed alice"
    by (simp add: eval_defs)
  from d denied_leaves_context
    [of "request_with (Some ''Bearer wrong'') (Some alice_session)" "collection [alice]"]
  have 1: "ctx (authenticate (request_with (Some ''Bearer wrong'') (Some alice_session))
             (collection [alice])) = request_with (Some ''Bearer wrong'') (Some alice_session)"
    by blast
  from a denied_leaves_context
    [of "request_with (Some ''Bearer abc123'') (Some alice_session)" "collection [alice]"]
  have 2: "ctx (authenticate (request_with (Some ''Bearer abc123'') (Some alice_session))
             (collection [alice])) =
           (request_with (Some ''Bearer abc123'') (Some alice_session))\<lparr>user := Some alice\<rparr>"
    by blast
  from d a 1 2 show ?thesis by blast
qed

section \<open>Credential extraction\<close>

text \<open>
  Claim C6. The configured prefix is \<open>Bearer\<close> followed by one space. Extraction yields
  absence for a missing header and for any header value that does not start with exactly
  that prefix, whatever follows; for a value that starts with it, extraction yields exactly
  what follows the prefix. On absence the gate denies with \<open>missing-credential\<close>,
  leaving request and store as they were.
\<close>

theorem extractCredential_prefix:
  "prefix = ''Bearer '' \<and>
   extractCredential None = None \<and>
   ((\<nexists>k. v = ''Bearer '' @ k) \<longrightarrow> extractCredential (Some v) = None) \<and>
   extractCredential (Some (''Bearer '' @ k)) = Some k \<and>
   (extractCredential (get_header req header) = None \<longrightarrow>
      authenticate req svc =
        \<lparr>outcome = Denied missing_credential, ctx = req, reported = None, service = svc\<rparr>)"
proof (intro conjI impI)
  show "prefix = ''Bearer ''" by (simp add: prefix_def)
  show "extractCredential None = None" by (simp add: extractCredential_def)
  show "extractCredential (Some (''Bearer '' @ k)) = Some k"
    by (simp add: extractCredential_def prefix_def)
next
  assume n: "\<nexists>k. v = ''Bearer '' @ k"
  have "take (length prefix) v \<noteq> prefix"
  proof
    assume "take (length prefix) v = prefix"
    then have "v = prefix @ drop (length prefix) v" by (metis append_take_drop_id)
    then have "\<exists>k. v = prefix @ k" by blast
    then have "\<exists>k. v = ''Bearer '' @ k" by (simp add: prefix_def)
    with n show False by blast
  qed
  then show "extractCredential (Some v) = None"
    by (simp add: extractCredential_def)
next
  assume "extractCredential (get_header req header) = None"
  then show "authenticate req svc =
        \<lparr>outcome = Denied missing_credential, ctx = req, reported = None, service = svc\<rparr>"
    by (simp add: authenticate_def)
qed

theorem extractCredential_prefix_witness:
  "(\<nexists>k. ''Token abc123'' = ''Bearer '' @ k) \<and>
   extractCredential (Some ''Token abc123'') = None \<and>
   has_api_key ''abc123'' alice \<and>
   authenticate (request_with (Some ''Token abc123'') (Some alice)) (collection [alice]) =
     \<lparr>outcome = Denied missing_credential,
      ctx = request_with (Some ''Token abc123'') (Some alice),
      reported = None, service = collection [alice]\<rparr>"
proof -
  have n: "\<nexists>k. ''Token abc123'' = ''Bearer '' @ k" by simp
  with extractCredential_prefix [where v = "''Token abc123''"]
  have x: "extractCredential (Some ''Token abc123'') = None" by blast
  then have h: "extractCredential
      (get_header (request_with (Some ''Token abc123'') (Some alice)) header) = None"
    by (simp add: request_with_def header_def)
  with extractCredential_prefix
    [where req = "request_with (Some ''Token abc123'') (Some alice)" and svc = "collection [alice]"]
  have a: "authenticate (request_with (Some ''Token abc123'') (Some alice)) (collection [alice]) =
     \<lparr>outcome = Denied missing_credential,
      ctx = request_with (Some ''Token abc123'') (Some alice),
      reported = None, service = collection [alice]\<rparr>"
    by blast
  have k: "has_api_key ''abc123'' alice" by (simp add: has_api_key_def alice_def)
  from n x k a show ?thesis by blast
qed

section \<open>No record found\<close>

text \<open>
  Claim C9. When the lookup finds no record (the store answers \<open>null\<close> or \<open>undefined\<close>),
  \<open>validateApiKey\<close> resolves, and the value it resolves with is \<open>undefined\<close>. Whenever
  the validator resolves with a falsy value, the verify callback calls
  \<open>done(null, false)\<close>, not \<open>done(error)\<close>.
\<close>

theorem no_record_resolves_undefined:
  "(findOne_impl svc \<lparr>f_id = u_id c, f_tags_key = ''api-key'', f_tags_value = apiKey\<rparr> = Inr Null \<or>
    findOne_impl svc \<lparr>f_id = u_id c, f_tags_key = ''api-key'', f_tags_value = apiKey\<rparr>
      = Inr Undefined
      \<longrightarrow> fst (validateApiKey apiKey (Some c) svc) = Inr Undefined) \<and>
   (fst (validateApiKey apiKey (user req) svc) = Inr r \<and> falsy r
      \<longrightarrow> fst (verify apiKey req svc) = DoneFalse)"
  by (cases r) (auto simp add: validateApiKey_present optional_toJSON_def verify_fst falsy_def)

theorem no_record_resolves_undefined_witness:
  "findOne_impl (collection [alice])
     \<lparr>f_id = u_id alice, f_tags_key = ''api-key'', f_tags_value = ''wrong''\<rparr> = Inr Null \<and>
   fst (validateApiKey ''wrong'' (Some alice) (collection [alice])) = Inr Undefined \<and>
   fst (verify ''wrong'' (request_with (Some ''Bearer wrong'') (Some alice)) (collection [alice]))
     = DoneFalse"
proof -
  have n: "findOne_impl (collection [alice])
     \<lparr>f_id = u_id alice, f_tags_key = ''api-key'', f_tags_value = ''wrong''\<rparr> = Inr Null"
    by (simp add: eval_defs)
  with no_record_resolves_undefined
    [where svc = "collection [alice]" and c = alice and apiKey = "''wrong''"]
  have v: "fst (validateApiKey ''wrong'' (Some alice) (collection [alice])) = Inr Undefined"
    by blast
  then have "fst (validateApiKey ''wrong''
      (user (request_with (Some ''Bearer wrong'') (Some alice))) (collection [alice]))
        = Inr Undefined \<and> falsy (Undefined :: user nullable)"
    by (simp add: request_with_def falsy_def)
  with no_record_resolves_undefined
    [where svc = "collection [alice]" and apiKey = "''wrong''" and r = Undefined
       and req = "request_with (Some ''Bearer wrong'') (Some alice)"]
  have d: "fst (verify ''wrong'' (request_with (Some ''Bearer wrong'') (Some alice))
      (collection [alice])) = DoneFalse"
    by blast
  from n v d show ?thesis by blast
qed

section \<open>The decision reads only the identifier of the claimed identity\<close>

text \<open>
  Claim C10. Two requests that present the same extracted credential against the same
  store, and whose claimed identity documents have the same \<open>_id\<close>, get the same outcome,
  the same reported error and leave the same store behind, whatever else differs between
  the two documents or the two requests.
\<close>

theorem outcome_depends_on_id_only:
  assumes "extractCredential (get_header r1 header) = extractCredential (get_header r2 header)"
    and "user r1 = Some c1" and "user r2 = Some c2" and "u_id c1 = u_id c2"
  shows "outcome (authenticate r1 svc) = outcome (authenticate r2 svc) \<and>
         reported (authenticate r1 svc) = reported (authenticate r2 svc) \<and>
         service (authenticate r1 svc) = service (authenticate r2 svc)"
  using assms
  by (simp add: authenticate_outcome authenticate_reported authenticate_service verify_fst
      verify_snd validateApiKey_present split: option.split)

theorem outcome_depends_on_id_only_witness:
  "alice \<noteq> alice_session \<and> u_id alice = u_id alice_session \<and>
   outcome (authenticate (request_with (Some ''Bearer abc123'') (Some alice)) (collection [alice]))
     = outcome (authenticate (request_with (Some ''Bearer abc123'') (Some alice_session))
         (collection [alice])) \<and>
   outcome (authenticate (request_with (Some ''Bearer abc123'') (Some alice_session))
       (collection [alice])) = Allowed alice"
proof -
  have h: "extractCredential
        (get_header (request_with (Some ''Bearer abc123'') (Some alice)) header) =
      extractCredential
        (get_header (request_with (Some ''Bearer abc123'') (Some alice_session)) header)"
    by (simp add: request_with_def)
  have u1: "user (request_with (Some ''Bearer abc123'') (Some alice)) = Some alice"
    and u2: "user (request_with (Some ''Bearer abc123'') (Some alice_session)) = Some alice_session"
    by (simp_all add: request_with_def)
  have i: "u_id alice = u_id alice_session" by (simp add: alice_def alice_session_def)
  have d: "alice \<noteq> alice_session" by (simp add: alice_def alice_session_def)
  have a: "outcome (authenticate (request_with (Some ''Bearer abc123'') (Some alice_session))
       (collection [alice])) = Allowed alice"
    by (simp add: eval_defs)
  from outcome_depends_on_id_only [OF h u1 u2 i, of "collection [alice]"] i d a
  show ?thesis by simp
qed

end
